theory Spec2Isabelle
  imports Main
begin

section \<open>Python strings and integers\<close>

text \<open>
  The engine is Python; its strings are modelled as \<^typ>\<open>string\<close>, one \<^typ>\<open>char\<close> per
  Python character (exact for ASCII text). The few built-in string operations the engine
  uses are written out here.
\<close>

definition nl :: string where
  "nl = [CHR 0x0A]"

definition dq :: string where
  "dq = [CHR 0x22]"

definition sq :: string where
  "sq = [CHR 0x27]"

text \<open>\<open>f'"{s}"'\<close>: the value between double quotes, as the engine writes it to a file.\<close>

definition quoted :: "string \<Rightarrow> string" where
  "quoted s = dq @ s @ dq"

text \<open>The characters \<open>str.strip()\<close> removes (ASCII range).\<close>

definition is_space :: "char \<Rightarrow> bool" where
  "is_space c = (c \<in> set [CHR 0x09, CHR 0x0A, CHR 0x0B, CHR 0x0C, CHR 0x0D,
                           CHR 0x1C, CHR 0x1D, CHR 0x1E, CHR 0x1F, CHR 0x20])"

definition str_strip :: "string \<Rightarrow> string" where
  "str_strip s = rev (dropWhile is_space (rev (dropWhile is_space s)))"

text \<open>\<open>s.split("\n")[0]\<close>: everything before the first newline.\<close>

definition first_line :: "string \<Rightarrow> string" where
  "first_line s = takeWhile (\<lambda>c. c \<noteq> CHR 0x0A) s"

text \<open>\<open>str.lower()\<close> on ASCII letters.\<close>

definition lower_char :: "char \<Rightarrow> char" where
  "lower_char c = (let n = (of_char c :: nat) in if 65 \<le> n \<and> n \<le> 90 then char_of (n + 32) else c)"

definition str_lower :: "string \<Rightarrow> string" where
  "str_lower s = map lower_char s"

text \<open>\<open>sep.join(xs)\<close>.\<close>

fun str_join :: "string \<Rightarrow> string list \<Rightarrow> string" where
  "str_join sep [] = []"
| "str_join sep [x] = x"
| "str_join sep (x # y # ys) = x @ sep @ str_join sep (y # ys)"

text \<open>\<open>str(n)\<close> for an integer: decimal digits, a minus sign when negative.\<close>

definition digit_char :: "nat \<Rightarrow> char" where
  "digit_char d = char_of (48 + d)"

fun show_nat :: "nat \<Rightarrow> string" where
  "show_nat n = (if n < 10 then [digit_char n] else show_nat (n div 10) @ [digit_char (n mod 10)])"

declare show_nat.simps [simp del]

definition show_int :: "int \<Rightarrow> string" where
  "show_int i = (if i < 0 then CHR ''-'' # show_nat (nat (- i)) else show_nat (nat i))"

text \<open>
  \<open>int(s)\<close> on a string: surrounding whitespace is dropped, one sign is allowed, then
  decimal digits with single underscores between digits; at most 4300 digits (the
  interpreter's limit for string conversion). Anything else is a \<open>ValueError\<close>,
  here \<open>None\<close>. Non-ASCII digits, which Python also accepts, are \<open>None\<close> here.
\<close>

definition is_digit :: "char \<Rightarrow> bool" where
  "is_digit c = (let n = (of_char c :: nat) in 48 \<le> n \<and> n \<le> 57)"

fun split_on :: "char \<Rightarrow> string \<Rightarrow> string list" where
  "split_on sep [] = [[]]"
| "split_on sep (c # cs) =
     (if c = sep then [] # split_on sep cs
      else (case split_on sep cs of [] \<Rightarrow> [[c]] | g # gs \<Rightarrow> (c # g) # gs))"

definition digits_value :: "string \<Rightarrow> nat" where
  "digits_value s = foldl (\<lambda>a c. 10 * a + (of_char c - 48)) 0 s"

definition parse_digits :: "string \<Rightarrow> nat option" where
  "parse_digits s =
     (let groups = split_on (CHR ''_'') s in
      if list_all (\<lambda>g. g \<noteq> [] \<and> list_all is_digit g) groups \<and> length (concat groups) \<le> 4300
      then Some (digits_value (concat groups)) else None)"

definition py_int :: "string \<Rightarrow> int option" where
  "py_int s =
     (case str_strip s of
        [] \<Rightarrow> None
      | c # rest \<Rightarrow>
          if c = CHR ''-'' then map_option (\<lambda>n. - int n) (parse_digits rest)
          else if c = CHR ''+'' then map_option int (parse_digits rest)
          else map_option int (parse_digits (c # rest)))"

text \<open>\<open>d.get(k, default)\<close> on a dictionary of strings.\<close>

definition dict_get :: "(string \<rightharpoonup> string) \<Rightarrow> string \<Rightarrow> string \<Rightarrow> string" where
  "dict_get d k dflt = (case d k of None \<Rightarrow> dflt | Some v \<Rightarrow> v)"

section \<open>Phases and the transition table (core/state.py)\<close>

definition MIN_APPROVAL_LENGTH :: nat where
  "MIN_APPROVAL_LENGTH = 10"

definition MIN_COMMIT_MESSAGE_LENGTH :: nat where
  "MIN_COMMIT_MESSAGE_LENGTH = 10"

definition PHASES :: "string list" where
  "PHASES = [''created'', ''initialized'', ''validated'', ''implementing'',
             ''human-manual-review'', ''merged'', ''cleaned'']"

text \<open>The dictionary \<open>VALID_TRANSITIONS\<close>; the key \<open>None\<close> is the absence of a phase.\<close>

definition VALID_TRANSITIONS :: "string option \<Rightarrow> string list option" where
  "VALID_TRANSITIONS from_phase =
     (case from_phase of
        None \<Rightarrow> Some [''created'']
      | Some p \<Rightarrow>
          if p = ''created'' then Some [''initialized'']
          else if p = ''initialized'' then Some [''validated'']
          else if p = ''validated'' then Some [''implementing'']
          else if p = ''implementing'' then Some [''human-manual-review'']
          else if p = ''human-manual-review'' then Some [''merged'']
          else if p = ''merged'' then Some [''cleaned'']
          else None)"

definition PHASE_SCRIPTS :: "string \<Rightarrow> string option" where
  "PHASE_SCRIPTS phase =
     (if phase = ''initialized'' then Some ''setup_script''
      else if phase = ''validated'' then Some ''validation_command''
      else if phase = ''human-manual-review'' then Some ''review_script''
      else if phase = ''cleaned'' then Some ''cleanup_script''
      else None)"

definition PHASES_REQUIRING_APPROVAL :: "string set" where
  "PHASES_REQUIRING_APPROVAL = {''human-manual-review''}"

text \<open>
  An optional string argument (\<open>str | None\<close>) is a \<^typ>\<open>string option\<close>; Python's
  \<open>not x\<close> holds for \<open>None\<close> and for the empty string.
\<close>

definition falsy :: "string option \<Rightarrow> bool" where
  "falsy x = (case x of None \<Rightarrow> True | Some s \<Rightarrow> s = [])"

definition validate_approval :: "string option \<Rightarrow> string option \<Rightarrow> string \<Rightarrow> bool \<times> string" where
  "validate_approval approval commit_message phase =
     (if falsy approval then
        (False,
         ''Phase '' @ sq @ phase @ sq @ '' requires explicit user approval.'' @ nl @
         ''Use: transition '' @ phase @ '' --approval '' @ dq @ ''<user'' @ sq @ ''s approval response>'' @ dq @
         '' --commit-message '' @ dq @ ''<message>'' @ dq @ nl @
         ''The approval must contain the user'' @ sq @ ''s actual response granting permission.'')
      else if length (the approval) < MIN_APPROVAL_LENGTH then
        (False,
         ''Approval response too short (min '' @ show_nat MIN_APPROVAL_LENGTH @ '' chars). '' @
         ''Provide the user'' @ sq @ ''s actual approval statement.'' @ nl @
         ''Example: --approval '' @ dq @ ''User said: Yes, proceed with the commit'' @ dq)
      else if falsy commit_message then
        (False,
         ''Phase '' @ sq @ phase @ sq @ '' requires a commit message.'' @ nl @
         ''Use: transition '' @ phase @ '' --approval '' @ dq @ ''...'' @ dq @
         '' --commit-message '' @ dq @ ''<message>'' @ dq)
      else if length (the commit_message) < MIN_COMMIT_MESSAGE_LENGTH then
        (False,
         ''Commit message too short (min '' @ show_nat MIN_COMMIT_MESSAGE_LENGTH @ '' chars). '' @
         ''Provide a meaningful commit message.'' @ nl @
         ''Example: --commit-message '' @ dq @
         ''feat(lifecycle): add review approval requirement'' @ dq)
      else (True, []))"

definition can_transition :: "string option \<Rightarrow> string \<Rightarrow> bool \<times> string" where
  "can_transition from_phase to_phase =
     (if to_phase \<notin> set PHASES then
        (False, ''Unknown phase: '' @ to_phase @ ''. Valid phases: '' @ str_join '', '' PHASES)
      else
        (let valid_next = (case VALID_TRANSITIONS from_phase of None \<Rightarrow> [] | Some l \<Rightarrow> l) in
         if to_phase \<notin> set valid_next then
           (let current = (if falsy from_phase then ''none'' else the from_phase);
                valid = (if str_join '', '' valid_next = [] then ''none'' else str_join '', '' valid_next)
            in (False, ''Cannot transition from '' @ sq @ current @ sq @ '' to '' @ sq @ to_phase @ sq @
                       ''. Valid: '' @ valid))
         else (True, [])))"

section \<open>External processes and the environment of one call\<close>

text \<open>
  The exceptions the engine can meet. \<open>TimeoutExpired\<close> and \<open>FileNotFoundError\<close> have
  handlers of their own in the source; \<open>OSError\<close> stands for any other failure to launch a
  process, \<open>ValueError\<close> for a failed \<open>int(...)\<close>. The string is \<open>str(e)\<close>.
\<close>

datatype exn = TimeoutExpired | FileNotFoundError string | OSError string | ValueError string

fun exn_text :: "exn \<Rightarrow> string" where
  "exn_text TimeoutExpired = ''timed out''"
| "exn_text (FileNotFoundError m) = m"
| "exn_text (OSError m) = m"
| "exn_text (ValueError m) = m"

text \<open>
  What a call of the engine does: it returns a value, raises to its caller, or never
  returns because it waits for a process that does not exit.
\<close>

datatype 'a result = Returned 'a | Raised exn | Blocked

text \<open>
  What an external command does once started, whatever the caller's patience: it exits
  after some time (in tenths of a second) with a return code and its two output streams,
  it never exits, or it cannot be started at all.
\<close>

datatype behaviour = Exits nat int string string | Hangs | Fails exn

record completed =
  returncode :: int
  stdout :: string
  stderr :: string

text \<open>
  \<open>subprocess.run(..., timeout=t)\<close>: a blocking call. With a timeout the process is killed
  and \<open>TimeoutExpired\<close> raised once \<open>t\<close> seconds have passed; without one (\<open>None\<close>) the
  call waits for as long as the process runs. The second component is the time waited.
\<close>

fun subprocess_run :: "behaviour \<Rightarrow> int option \<Rightarrow> (completed \<times> nat) result" where
  "subprocess_run (Fails e) t = Raised e"
| "subprocess_run Hangs None = Blocked"
| "subprocess_run Hangs (Some t) = Raised TimeoutExpired"
| "subprocess_run (Exits d rc out err) None =
     Returned (\<lparr>returncode = rc, stdout = out, stderr = err\<rparr>, d)"
| "subprocess_run (Exits d rc out err) (Some t) =
     (if 10 * t < int d then Raised TimeoutExpired
      else Returned (\<lparr>returncode = rc, stdout = out, stderr = err\<rparr>, d))"

text \<open>
  One external invocation as the engine makes it: a shell command line (\<open>shell=True\<close>) or
  an argument vector, and the \<open>timeout\<close> argument passed to \<open>subprocess.run\<close>
  (\<open>None\<close> when the call passes none).
\<close>

datatype command = Shell string | Argv "string list"

record invocation =
  cmd :: command
  timeout :: "int option"

text \<open>
  Everything outside the engine that one call of it reads. The two configuration
  dictionaries are what \<open>get_config(worktree_root)\<close> and
  \<open>get_validation_config(worktree_root)\<close> return; \<open>hooks_config\<close> is what \<open>get_config()\<close>
  returns when \<open>get_hook_paths\<close> calls it without a root. \<open>repo_path p\<close> is the relative
  path \<open>p\<close> joined to the repository root (found with git, else the current directory), and
  \<open>hook_exists\<close> says whether such a path exists on disk. \<open>process\<close> gives the
  behaviour of a command from the invocations made before it, so that a command may
  behave differently each time it is run. The two clock readings are the values of
  \<open>datetime.now(UTC).isoformat()\<close> when the validation result and the new phase are
  written. External commands are taken not to write the status file themselves.
\<close>

record env =
  config :: "string \<rightharpoonup> string"
  validation_config :: "string \<rightharpoonup> string"
  hooks_config :: "string \<rightharpoonup> string"
  repo_path :: "string \<Rightarrow> string"
  hook_exists :: "string \<Rightarrow> bool"
  process :: "invocation list \<Rightarrow> command \<Rightarrow> behaviour"
  validation_clock :: string
  commit_clock :: string

text \<open>
  What a call can change: the status file (\<open>None\<close> when it does not exist, else its
  \<open>key = value\<close> lines as a dictionary from key to the text after the equals sign), and the
  record of the external invocations made so far, in order. Console output is not
  modelled.
\<close>

record world =
  status_file :: "(string \<rightharpoonup> string) option"
  calls :: "invocation list"

text \<open>Running one external command: the invocation is recorded, then its outcome decided.\<close>

definition run_process :: "env \<Rightarrow> command \<Rightarrow> int option \<Rightarrow> world \<Rightarrow> (completed \<times> nat) result \<times> world" where
  "run_process e c t w =
     (subprocess_run (process e (calls w) c) t,
      w\<lparr>calls := calls w @ [\<lparr>cmd = c, timeout = t\<rparr>]\<rparr>)"

section \<open>The validation pipeline (core/validation.py)\<close>

definition DEFAULT_VALIDATION_TIMEOUT :: int where
  "DEFAULT_VALIDATION_TIMEOUT = 300"

text \<open>\<open>duration_seconds\<close> is kept in tenths of a second, the precision the messages show.\<close>

record ValidationResult =
  name :: string
  passed :: bool
  message :: string
  duration_seconds :: nat

record ValidationSummary =
  all_passed :: bool
  results :: "ValidationResult list"
  summary_text :: string

text \<open>\<open>f"{duration:.1f}"\<close> for a duration in tenths of a second.\<close>

definition show_duration :: "nat \<Rightarrow> string" where
  "show_duration d = show_nat (d div 10) @ ''.'' @ show_nat (d mod 10)"

definition format_validation_message :: "completed \<Rightarrow> nat \<Rightarrow> string" where
  "format_validation_message result duration =
     (if returncode result = 0 then ''passed in '' @ show_duration duration @ ''s''
      else
        (let error_output = (if str_strip (stderr result) \<noteq> [] then str_strip (stderr result)
                             else str_strip (stdout result));
             first = (if error_output \<noteq> [] then take 100 (first_line error_output) else [])
         in ''failed (exit '' @ show_int (returncode result) @ ''): '' @ first))"

text \<open>
  The \<open>try\<close> of \<open>run_single_validation\<close>: \<open>TimeoutExpired\<close> has its own handler, every
  other exception the general one. A call that never returned would leave the function
  without a result.
\<close>

definition run_single_validation ::
  "env \<Rightarrow> string \<Rightarrow> string \<Rightarrow> int \<Rightarrow> world \<Rightarrow> ValidationResult result \<times> world" where
  "run_single_validation e nm command tmo w =
     (case run_process e (Shell command) (Some tmo) w of
        (Returned (result, duration), w') \<Rightarrow>
          (Returned \<lparr>name = nm, passed = (returncode result = 0),
                     message = format_validation_message result duration,
                     duration_seconds = duration\<rparr>, w')
      | (Raised TimeoutExpired, w') \<Rightarrow>
          (Returned \<lparr>name = nm, passed = False,
                     message = ''timed out after '' @ show_int tmo @ ''s'',
                     duration_seconds = nat (10 * tmo)\<rparr>, w')
      | (Raised ex, w') \<Rightarrow>
          (Returned \<lparr>name = nm, passed = False,
                     message = ''error: '' @ exn_text ex,
                     duration_seconds = 0\<rparr>, w')
      | (Blocked, w') \<Rightarrow> (Blocked, w'))"

text \<open>
  The loop of \<open>run_validations\<close> over the (name, command) pairs: an empty command is
  skipped, any other is run and its result appended.
\<close>

fun run_commands ::
  "env \<Rightarrow> int \<Rightarrow> (string \<times> string) list \<Rightarrow> ValidationResult list \<Rightarrow> world
     \<Rightarrow> ValidationResult list result \<times> world" where
  "run_commands e tmo [] rs w = (Returned rs, w)"
| "run_commands e tmo ((nm, command) # rest) rs w =
     (if command = [] then run_commands e tmo rest rs w
      else (case run_single_validation e nm command tmo w of
              (Returned r, w') \<Rightarrow> run_commands e tmo rest (rs @ [r]) w'
            | (Raised ex, w') \<Rightarrow> (Raised ex, w')
            | (Blocked, w') \<Rightarrow> (Blocked, w')))"

definition summary_part :: "ValidationResult \<Rightarrow> string" where
  "summary_part r = name r @ '': '' @ (if passed r then ''pass'' else ''FAIL'')"

text \<open>
  The values \<open>run_validations\<close> reads from the \<open>[validation]\<close> settings: the text of the
  timeout (default \<open>str(DEFAULT_VALIDATION_TIMEOUT)\<close>), the flag \<open>require_simplified\<close>, and
  the list \<open>validation_commands\<close> of (name, command) pairs, an unconfigured command being
  the empty string.
\<close>

definition timeout_setting :: "env \<Rightarrow> string" where
  "timeout_setting e = dict_get (validation_config e) ''timeout'' (show_int DEFAULT_VALIDATION_TIMEOUT)"

definition require_simplified :: "env \<Rightarrow> bool" where
  "require_simplified e =
     (str_lower (dict_get (validation_config e) ''require_simplified'' ''false'') = ''true'')"

definition validation_commands :: "env \<Rightarrow> (string \<times> string) list" where
  "validation_commands e =
     [(''typecheck'', dict_get (validation_config e) ''typecheck_command'' []),
      (''lint'', dict_get (validation_config e) ''lint_command'' []),
      (''test'', dict_get (validation_config e) ''test_command'' [])]"

text \<open>The result list after the simplification gate, before any command has run.\<close>

definition simplifier_check :: "env \<Rightarrow> bool \<Rightarrow> ValidationResult list" where
  "simplifier_check e simplified =
     (if require_simplified e then
        [\<lparr>name = ''code-simplifier'', passed = simplified,
          message = (if simplified then ''--simplified flag provided''
                     else ''--simplified flag required (run code-simplifier first)''),
          duration_seconds = 0\<rparr>]
      else [])"

definition run_validations :: "env \<Rightarrow> bool \<Rightarrow> world \<Rightarrow> ValidationSummary result \<times> world" where
  "run_validations e simplified w =
     (case py_int (timeout_setting e) of
        None \<Rightarrow>
          (Raised (ValueError (''invalid literal for int() with base 10: '' @ sq @
                               timeout_setting e @ sq)), w)
      | Some tmo \<Rightarrow>
          (case run_commands e tmo (validation_commands e) (simplifier_check e simplified) w of
             (Returned rs, w') \<Rightarrow>
               (Returned \<lparr>all_passed = list_all passed rs,
                          results = rs,
                          summary_text = str_join '', '' (map summary_part rs)\<rparr>, w')
           | (Raised ex, w') \<Rightarrow> (Raised ex, w')
           | (Blocked, w') \<Rightarrow> (Blocked, w')))"

section \<open>The hook execution engine (core/hooks.py)\<close>

definition HOOK_POINTS :: "string list" where
  "HOOK_POINTS = [''post_init'', ''pre_validate'', ''pre_review'', ''pre_merge'', ''pre_cleanup'']"

definition DEFAULT_HOOK_PATHS :: "string \<rightharpoonup> string" where
  "DEFAULT_HOOK_PATHS =
     [''post_init'' \<mapsto> ''skills/worktree-flow/lifecycle/post_init.py'',
      ''pre_validate'' \<mapsto> ''skills/worktree-flow/lifecycle/pre_validate.py'',
      ''pre_review'' \<mapsto> ''skills/worktree-flow/lifecycle/pre_review.py'',
      ''pre_merge'' \<mapsto> ''skills/worktree-flow/lifecycle/pre_merge.py'',
      ''pre_cleanup'' \<mapsto> ''skills/worktree-flow/lifecycle/pre_cleanup.py'']"

definition PHASE_HOOKS :: "string \<Rightarrow> string list option" where
  "PHASE_HOOKS phase =
     (if phase = ''initialized'' then Some [''post_init'']
      else if phase = ''validated'' then Some [''pre_validate'']
      else if phase = ''human-manual-review'' then Some [''pre_review'']
      else if phase = ''merged'' then Some [''pre_merge'']
      else if phase = ''cleaned'' then Some [''pre_cleanup'']
      else None)"

definition get_hook_paths :: "env \<Rightarrow> (string \<rightharpoonup> string)" where
  "get_hook_paths e =
     fold (\<lambda>hook_point hook_paths.
             case hooks_config e hook_point of
               None \<Rightarrow> hook_paths
             | Some p \<Rightarrow> hook_paths(hook_point \<mapsto> p))
          HOOK_POINTS DEFAULT_HOOK_PATHS"

definition get_hook_path :: "env \<Rightarrow> string \<Rightarrow> string option" where
  "get_hook_path e hook_point =
     (case get_hook_paths e hook_point of
        None \<Rightarrow> None
      | Some relative_path \<Rightarrow>
          if relative_path = [] then None
          else if hook_exists e (repo_path e relative_path) then Some (repo_path e relative_path)
          else None)"

definition run_lifecycle_hook ::
  "env \<Rightarrow> string \<Rightarrow> int \<Rightarrow> world \<Rightarrow> (bool \<times> string) result \<times> world" where
  "run_lifecycle_hook e hook_point tmo w =
     (case get_hook_path e hook_point of
        None \<Rightarrow> (Returned (True, ''Hook '' @ hook_point @ '' skipped (script not found)''), w)
      | Some hook_path \<Rightarrow>
          (case run_process e (Argv [''uv'', ''run'', hook_path]) (Some tmo) w of
             (Returned (result, duration), w') \<Rightarrow>
               if returncode result = 0 then
                 (Returned (True, ''Hook '' @ hook_point @ '' completed''), w')
               else
                 (let err = (if stderr result \<noteq> [] then take 200 (str_strip (stderr result))
                             else ''No error output'')
                  in (Returned (True, ''Hook '' @ hook_point @ '' failed (non-blocking): '' @ err), w'))
           | (Raised TimeoutExpired, w') \<Rightarrow>
               (Returned (True, ''Hook '' @ hook_point @ '' timed out after '' @ show_int tmo @
                                ''s (non-blocking)''), w')
           | (Raised (FileNotFoundError m), w') \<Rightarrow>
               (Returned (True, ''Hook '' @ hook_point @ '' skipped (uv not found)''), w')
           | (Raised ex, w') \<Rightarrow>
               (Returned (True, ''Hook '' @ hook_point @ '' error (non-blocking): '' @ exn_text ex), w')
           | (Blocked, w') \<Rightarrow> (Blocked, w')))"

text \<open>The loop of \<open>run_phase_hooks\<close>; each hook runs with the default timeout of 60 seconds.\<close>

definition DEFAULT_HOOK_TIMEOUT :: int where
  "DEFAULT_HOOK_TIMEOUT = 60"

fun run_hook_points ::
  "env \<Rightarrow> string list \<Rightarrow> (string \<times> bool \<times> string) list \<Rightarrow> world
     \<Rightarrow> (string \<times> bool \<times> string) list result \<times> world" where
  "run_hook_points e [] rs w = (Returned rs, w)"
| "run_hook_points e (hook_point # rest) rs w =
     (case run_lifecycle_hook e hook_point DEFAULT_HOOK_TIMEOUT w of
        (Returned (success, msg), w') \<Rightarrow> run_hook_points e rest (rs @ [(hook_point, success, msg)]) w'
      | (Raised ex, w') \<Rightarrow> (Raised ex, w')
      | (Blocked, w') \<Rightarrow> (Blocked, w'))"

definition run_phase_hooks ::
  "env \<Rightarrow> string \<Rightarrow> world \<Rightarrow> (string \<times> bool \<times> string) list result \<times> world" where
  "run_phase_hooks e phase w =
     run_hook_points e (case PHASE_HOOKS phase of None \<Rightarrow> [] | Some hs \<Rightarrow> hs) [] w"

section \<open>The status file\<close>

text \<open>
  Modelled from the spec: \<open>parse_toml_value\<close> and \<open>update_toml_fields\<close> belong to
  \<open>worktree_flow/lib/toml_utils.py\<close>, which is not among the sources. The spec describes the
  status record as flat \<open>key = value\<close> lines, read as absent when the field is missing,
  whose existing keys are overwritten with a newer value and never deleted. The engine
  writes string values between double quotes and reads phase names back without them.
\<close>

definition unquote :: "string \<Rightarrow> string" where
  "unquote s = (if 2 \<le> length s \<and> hd s = CHR 0x22 \<and> last s = CHR 0x22 then butlast (tl s) else s)"

definition parse_toml_value :: "(string \<rightharpoonup> string) \<Rightarrow> string \<Rightarrow> string option" where
  "parse_toml_value content key = map_option unquote (content key)"

definition update_toml_fields :: "(string \<rightharpoonup> string) \<Rightarrow> (string \<rightharpoonup> string) \<Rightarrow> (string \<rightharpoonup> string)" where
  "update_toml_fields content updates = content ++ updates"

section \<open>The phase state machine (core/state.py)\<close>

definition get_current_phase :: "world \<Rightarrow> string option" where
  "get_current_phase w =
     (case status_file w of
        None \<Rightarrow> None
      | Some content \<Rightarrow> parse_toml_value content ''current_phase'')"

definition run_phase_script ::
  "env \<Rightarrow> string \<Rightarrow> bool \<Rightarrow> bool \<Rightarrow> bool \<Rightarrow> world \<Rightarrow> (bool \<times> string) result \<times> world" where
  "run_phase_script e phase simplified linted tested w =
     (case PHASE_SCRIPTS phase of
        None \<Rightarrow> (Returned (True, []), w)
      | Some config_key \<Rightarrow>
          (let script = dict_get (config e) config_key [] in
           if script = [] then (Returned (True, []), w)
           else
             (let cmd = (if phase = ''human-manual-review'' then
                           script @ (if simplified then '' --simplified'' else []) @
                                    (if linted then '' --linted'' else []) @
                                    (if tested then '' --tested'' else [])
                         else script)
              in case run_process e (Shell cmd) None w of
                   (Returned (result, duration), w') \<Rightarrow>
                     if returncode result \<noteq> 0 then
                       (Returned (False, ''Script failed with exit code '' @ show_int (returncode result)), w')
                     else (Returned (True, ''Script completed: '' @ script), w')
                 | (Raised ex, w') \<Rightarrow> (Raised ex, w')
                 | (Blocked, w') \<Rightarrow> (Blocked, w'))))"

text \<open>\<open>str(b).lower()\<close> for a Boolean.\<close>

definition show_bool_lower :: "bool \<Rightarrow> string" where
  "show_bool_lower b = str_lower (if b then ''True'' else ''False'')"

definition update_validation_status :: "env \<Rightarrow> ValidationSummary \<Rightarrow> world \<Rightarrow> world" where
  "update_validation_status e summary w =
     (case status_file w of
        None \<Rightarrow> w
      | Some content \<Rightarrow>
          w\<lparr>status_file := Some (update_toml_fields content
               [''validation_passed'' \<mapsto> show_bool_lower (all_passed summary),
                ''validation_summary'' \<mapsto> quoted (summary_text summary),
                ''last_validation_at'' \<mapsto> quoted (validation_clock e)])\<rparr>)"

text \<open>
  The dictionary \<open>updates\<close> that \<open>do_transition\<close> builds, and its write to the status file:
  a new file holds exactly these fields, an existing one is updated with them.
\<close>

definition transition_updates :: "env \<Rightarrow> string \<Rightarrow> string option \<Rightarrow> string option \<Rightarrow> (string \<rightharpoonup> string)" where
  "transition_updates e to_phase approval commit_message =
     (let updates0 = [''current_phase'' \<mapsto> quoted to_phase,
                      to_phase @ ''_at'' \<mapsto> quoted (commit_clock e)];
          updates1 = (if falsy approval then updates0
                      else updates0(to_phase @ ''_approval'' \<mapsto> quoted (the approval)));
          updates2 = (if falsy commit_message then updates1
                      else updates1(''commit_message'' \<mapsto> quoted (the commit_message)))
      in updates2)"

definition write_status :: "(string \<rightharpoonup> string) \<Rightarrow> world \<Rightarrow> world" where
  "write_status updates w =
     (case status_file w of
        None \<Rightarrow> w\<lparr>status_file := Some updates\<rparr>
      | Some content \<Rightarrow> w\<lparr>status_file := Some (update_toml_fields content updates)\<rparr>)"

definition show_optional :: "string option \<Rightarrow> string" where
  "show_optional x = (case x of None \<Rightarrow> ''None'' | Some s \<Rightarrow> s)"

text \<open>
  The second half of \<open>do_transition\<close>, from the approval check on: the approval gate, the
  phase script, the write of the new phase, and the hooks of the new phase.
\<close>

definition finish_transition ::
  "env \<Rightarrow> string \<Rightarrow> string option \<Rightarrow> string option \<Rightarrow> bool \<Rightarrow> bool \<Rightarrow> bool \<Rightarrow> world
     \<Rightarrow> (bool \<times> string) result \<times> world" where
  "finish_transition e to_phase approval commit_message simplified linted tested w =
     (case (if to_phase \<in> PHASES_REQUIRING_APPROVAL
            then validate_approval approval commit_message to_phase
            else (True, [])) of
        (False, error) \<Rightarrow> (Returned (False, error), w)
      | (True, error) \<Rightarrow>
          (case run_phase_script e to_phase simplified linted tested w of
             (Raised ex, w1) \<Rightarrow> (Raised ex, w1)
           | (Blocked, w1) \<Rightarrow> (Blocked, w1)
           | (Returned (False, script_msg), w1) \<Rightarrow>
               (Returned (False, ''Phase script failed: '' @ script_msg), w1)
           | (Returned (True, script_msg), w1) \<Rightarrow>
               (case run_phase_hooks e to_phase
                       (write_status (transition_updates e to_phase approval commit_message) w1) of
                  (Raised ex, w2) \<Rightarrow> (Raised ex, w2)
                | (Blocked, w2) \<Rightarrow> (Blocked, w2)
                | (Returned hook_results, w2) \<Rightarrow>
                    (Returned (True, ''Transitioned to '' @ sq @ to_phase @ sq), w2))))"

definition do_transition ::
  "env \<Rightarrow> string \<Rightarrow> string option \<Rightarrow> string option \<Rightarrow> bool \<Rightarrow> bool \<Rightarrow> bool \<Rightarrow> bool \<Rightarrow> world
     \<Rightarrow> (bool \<times> string) result \<times> world" where
  "do_transition e to_phase approval commit_message simplified linted tested validation_only w =
     (let current = get_current_phase w in
      if validation_only then
        (if to_phase \<noteq> ''human-manual-review'' then
           (Returned (False, ''--validation-only only applies to human-manual-review transition''), w)
         else if current \<noteq> Some ''implementing'' then
           (Returned (False, ''--validation-only requires implementing phase, currently: '' @
                             show_optional current), w)
         else
           (case run_validations e simplified w of
              (Returned summary, w1) \<Rightarrow>
                if all_passed summary then
                  (Returned (True, ''All validations passed: '' @ summary_text summary), w1)
                else (Returned (False, ''Validation failed: '' @ summary_text summary), w1)
            | (Raised ex, w1) \<Rightarrow> (Raised ex, w1)
            | (Blocked, w1) \<Rightarrow> (Blocked, w1)))
      else
        (case can_transition current to_phase of
           (False, reason) \<Rightarrow> (Returned (False, reason), w)
         | (True, reason) \<Rightarrow>
             if to_phase = ''human-manual-review'' then
               (case run_validations e simplified w of
                  (Returned summary, w1) \<Rightarrow>
                    if \<not> all_passed summary then
                      (Returned (False, ''Pre-review validation failed: '' @ summary_text summary @ nl @
                                        ''Fix the issues and try again.''), w1)
                    else finish_transition e to_phase approval commit_message simplified linted tested
                           (update_validation_status e summary w1)
                | (Raised ex, w1) \<Rightarrow> (Raised ex, w1)
                | (Blocked, w1) \<Rightarrow> (Blocked, w1))
             else finish_transition e to_phase approval commit_message simplified linted tested w))"

section \<open>Vocabulary of the statements\<close>

text \<open>
  The commands of a list that are configured (not the empty string), and the invocation
  the pipeline makes for one of them under a given timeout.
\<close>

definition configured :: "(string \<times> string) list \<Rightarrow> (string \<times> string) list" where
  "configured cmds = filter (\<lambda>(nm, command). command \<noteq> []) cmds"

definition invoked :: "int \<Rightarrow> string \<times> string \<Rightarrow> invocation" where
  "invoked tmo = (\<lambda>(nm, command). \<lparr>cmd = Shell command, timeout = Some tmo\<rparr>)"

text \<open>
  The keys of the status file that record a validation run, and the value of a key of
  the status file (\<open>None\<close> when the file or the key is missing).
\<close>

definition validation_keys :: "string set" where
  "validation_keys = {''validation_passed'', ''validation_summary'', ''last_validation_at''}"

definition status_lookup :: "world \<Rightarrow> string \<Rightarrow> string option" where
  "status_lookup w k = (case status_file w of None \<Rightarrow> None | Some content \<Rightarrow> content k)"

text \<open>Concrete inputs on which the statements below are evaluated.\<close>

definition quiet_env :: env where
  "quiet_env =
     \<lparr>config = Map.empty, validation_config = Map.empty, hooks_config = Map.empty,
      repo_path = (\<lambda>p. ''/repo/'' @ p), hook_exists = (\<lambda>p. False),
      process = (\<lambda>h c. Exits 5 0 [] []),
      validation_clock = ''2025-01-01T10:00:00+00:00'',
      commit_clock = ''2025-01-01T10:00:01+00:00''\<rparr>"

definition world_at :: "string \<Rightarrow> world" where
  "world_at phase = \<lparr>status_file = Some [''current_phase'' \<mapsto> quoted phase], calls = []\<rparr>"

definition strict_env :: env where
  "strict_env =
     \<lparr>config = Map.empty,
      validation_config = [''require_simplified'' \<mapsto> ''true'', ''lint_command'' \<mapsto> ''ruff check''],
      hooks_config = Map.empty,
      repo_path = (\<lambda>p. ''/repo/'' @ p), hook_exists = (\<lambda>p. False),
      process = (\<lambda>h c. if c = Shell ''ruff check'' then Exits 12 1 [] ''E501 line too long''
                         else Exits 5 0 [] []),
      validation_clock = ''2025-01-01T10:00:00+00:00'',
      commit_clock = ''2025-01-01T10:00:01+00:00''\<rparr>"

definition capital_env :: env where
  "capital_env = quiet_env\<lparr>validation_config := [''require_simplified'' \<mapsto> ''True'']\<rparr>"

definition passing_env :: env where
  "passing_env =
     quiet_env\<lparr>validation_config :=
       [''typecheck_command'' \<mapsto> ''mypy .'', ''lint_command'' \<mapsto> ''ruff check'',
        ''test_command'' \<mapsto> ''pytest'']\<rparr>"






section \<open>The pipeline, the hooks and the phase script always come back as expected\<close>

lemma subprocess_run_timeout_not_blocked: "subprocess_run b (Some t) \<noteq> Blocked"
  by (cases b) auto

lemma run_single_validation_returns:
  "\<exists>r. run_single_validation e nm c tmo w =
         (Returned r, w\<lparr>calls := calls w @ [\<lparr>cmd = Shell c, timeout = Some tmo\<rparr>]\<rparr>) \<and> name r = nm"
proof (cases "process e (calls w) (Shell c)")
  case (Exits d rc out err)
  then show ?thesis
    by (simp add: run_single_validation_def run_process_def)
next
  case Hangs
  then show ?thesis
    by (simp add: run_single_validation_def run_process_def)
next
  case (Fails ex)
  then show ?thesis
    by (cases ex) (simp_all add: run_single_validation_def run_process_def)
qed

lemma run_commands_returns:
  "\<exists>rs' w'. run_commands e tmo cmds rs w = (Returned (rs @ rs'), w') \<and>
     status_file w' = status_file w \<and>
     map name rs' = map fst (configured cmds) \<and>
     calls w' = calls w @ map (invoked tmo) (configured cmds)"
proof (induction cmds arbitrary: rs w)
  case Nil
  then show ?case by (simp add: configured_def)
next
  case (Cons p cmds)
  obtain nm c where p: "p = (nm, c)" by (cases p)
  show ?case
  proof (cases "c = []")
    case True
    with Cons.IH [of rs w] p show ?thesis by (simp add: configured_def)
  next
    case False
    obtain r where r: "run_single_validation e nm c tmo w =
         (Returned r, w\<lparr>calls := calls w @ [\<lparr>cmd = Shell c, timeout = Some tmo\<rparr>]\<rparr>)" "name r = nm"
      using run_single_validation_returns by blast
    from Cons.IH [of "rs @ [r]" "w\<lparr>calls := calls w @ [\<lparr>cmd = Shell c, timeout = Some tmo\<rparr>]\<rparr>"]
    obtain rs' w' where
      "run_commands e tmo cmds (rs @ [r]) (w\<lparr>calls := calls w @ [\<lparr>cmd = Shell c, timeout = Some tmo\<rparr>]\<rparr>)
         = (Returned ((rs @ [r]) @ rs'), w')"
      "status_file w' = status_file w"
      "map name rs' = map fst (configured cmds)"
      "calls w' = (calls w @ [\<lparr>cmd = Shell c, timeout = Some tmo\<rparr>]) @ map (invoked tmo) (configured cmds)"
      by auto
    with False p r show ?thesis
      by (intro exI [of _ "r # rs'"] exI [of _ w']) (simp add: configured_def invoked_def)
  qed
qed


lemma run_single_validation_passed:
  assumes "run_single_validation e nm c tmo w = (Returned r, w')"
  shows "passed r = (\<exists>d out err. process e (calls w) (Shell c) = Exits d 0 out err \<and> int d \<le> 10 * tmo)"
proof (cases "process e (calls w) (Shell c)")
  case (Exits d rc out err)
  with assms show ?thesis
    by (auto simp add: run_single_validation_def run_process_def split: if_splits)
next
  case Hangs
  with assms show ?thesis
    by (auto simp add: run_single_validation_def run_process_def)
next
  case (Fails ex)
  with assms show ?thesis
    by (cases ex) (auto simp add: run_single_validation_def run_process_def)
qed

lemma run_commands_failing:
  assumes "(nm, c) \<in> set cmds" and "c \<noteq> []"
    and "\<forall>h. \<exists>d rc out err. process e h (Shell c) = Exits d rc out err \<and> rc \<noteq> 0"
    and "run_commands e tmo cmds rs w = (Returned rs', w')"
  shows "\<not> list_all passed rs'"
  using assms(1,4)
proof (induction cmds arbitrary: rs w)
  case Nil
  then show ?case by simp
next
  case (Cons p cmds)
  obtain nm' c' where p: "p = (nm', c')" by (cases p)
  show ?case
  proof (cases "c' = []")
    case True
    with Cons p assms(2) show ?thesis by auto
  next
    case False
    obtain r where r: "run_single_validation e nm' c' tmo w =
         (Returned r, w\<lparr>calls := calls w @ [\<lparr>cmd = Shell c', timeout = Some tmo\<rparr>]\<rparr>)"
      using run_single_validation_returns by blast
    let ?w1 = "w\<lparr>calls := calls w @ [\<lparr>cmd = Shell c', timeout = Some tmo\<rparr>]\<rparr>"
    from Cons.prems(2) p False r
    have rest: "run_commands e tmo cmds (rs @ [r]) ?w1 = (Returned rs', w')" by simp
    show ?thesis
    proof (cases "(nm, c) \<in> set cmds")
      case True
      from Cons.IH [OF True rest] show ?thesis .
    next
      case False
      with Cons.prems(1) p have "c' = c" by simp
      from assms(3) obtain d rc out err where
        "process e (calls w) (Shell c) = Exits d rc out err" "rc \<noteq> 0" by blast
      with \<open>c' = c\<close> run_single_validation_passed [OF r] have "\<not> passed r" by simp
      moreover obtain rs'' where "rs' = (rs @ [r]) @ rs''"
        using run_commands_returns [of e tmo cmds "rs @ [r]" ?w1] rest by auto
      ultimately show ?thesis by simp
    qed
  qed
qed

lemma run_validations_returns:
  assumes "py_int (timeout_setting e) = Some tmo"
  shows "\<exists>rs w'. run_validations e simplified w =
           (Returned \<lparr>all_passed = list_all passed (simplifier_check e simplified @ rs),
                      results = simplifier_check e simplified @ rs,
                      summary_text = str_join '', '' (map summary_part (simplifier_check e simplified @ rs))\<rparr>, w') \<and>
         status_file w' = status_file w \<and>
         map name rs = map fst (configured (validation_commands e)) \<and>
         calls w' = calls w @ map (invoked tmo) (configured (validation_commands e))"
proof -
  obtain rs' w' where
    "run_commands e tmo (validation_commands e) (simplifier_check e simplified) w =
       (Returned (simplifier_check e simplified @ rs'), w')"
    "status_file w' = status_file w"
    "map name rs' = map fst (configured (validation_commands e))"
    "calls w' = calls w @ map (invoked tmo) (configured (validation_commands e))"
    using run_commands_returns by blast
  with assms show ?thesis
    by (simp add: run_validations_def)
qed

lemma run_validations_status:
  "status_file (snd (run_validations e simplified w)) = status_file w"
proof (cases "py_int (timeout_setting e)")
  case None
  then show ?thesis by (simp add: run_validations_def)
next
  case (Some tmo)
  from run_validations_returns [OF Some, of simplified w] show ?thesis by auto
qed






section \<open>Rejection of illegal transitions\<close>

text \<open>
  C9. For every pair (from, to) that is not in the transition table, \<open>do_transition\<close> called
  with current phase \<open>from\<close> returns failure and changes nothing: neither the status file
  nor anything else of the world (no external command is run). An identical call made
  right after it returns the same message and again changes nothing. This holds for every
  choice of the options, validation-only mode included.
\<close>

theorem illegal_transition_rejected:
  assumes "to_phase \<notin> set (case VALID_TRANSITIONS (get_current_phase w) of None \<Rightarrow> [] | Some l \<Rightarrow> l)"
  shows "\<exists>msg. do_transition e to_phase approval commit_message simplified linted tested validation_only w
                 = (Returned (False, msg), w) \<and>
               do_transition e to_phase approval commit_message simplified linted tested validation_only
                 (snd (do_transition e to_phase approval commit_message simplified linted tested
                         validation_only w))
                 = (Returned (False, msg), w)"
proof -
  have "\<exists>msg. do_transition e to_phase approval commit_message simplified linted tested validation_only w
                 = (Returned (False, msg), w)"
  proof (cases validation_only)
    case True
    from assms have "to_phase \<noteq> ''human-manual-review'' \<or> get_current_phase w \<noteq> Some ''implementing''"
      by (auto simp add: VALID_TRANSITIONS_def)
    with True show ?thesis
      by (auto simp add: do_transition_def Let_def)
  next
    case False
    from assms have "fst (can_transition (get_current_phase w) to_phase) = False"
      by (simp add: can_transition_def Let_def)
    with False show ?thesis
      by (auto simp add: do_transition_def Let_def split: prod.splits bool.splits)
  qed
  then show ?thesis by auto
qed

lemma current_phase_world_at_created: "get_current_phase (world_at ''created'') = Some ''created''"
  by code_simp

theorem illegal_transition_rejected_witness:
  "''merged'' \<notin> set (case VALID_TRANSITIONS (get_current_phase (world_at ''created'')) of
                         None \<Rightarrow> [] | Some l \<Rightarrow> l) \<and>
   (\<exists>msg. do_transition quiet_env ''merged'' None None False False False False (world_at ''created'')
            = (Returned (False, msg), world_at ''created'') \<and>
          do_transition quiet_env ''merged'' None None False False False False
            (snd (do_transition quiet_env ''merged'' None None False False False False
                    (world_at ''created'')))
            = (Returned (False, msg), world_at ''created''))"
proof -
  have h: "''merged'' \<notin> set (case VALID_TRANSITIONS (get_current_phase (world_at ''created'')) of
                                None \<Rightarrow> [] | Some l \<Rightarrow> l)"
    by (simp add: current_phase_world_at_created VALID_TRANSITIONS_def)
  show ?thesis
    using h illegal_transition_rejected [OF h, of quiet_env None None False False False False]
    by simp
qed

section \<open>The aggregate of the validation pipeline\<close>

lemma strict_env_timeout: "py_int (timeout_setting strict_env) = Some 300"
  by code_simp


lemma strict_env_summary:
  "fst (run_validations strict_env True (world_at ''implementing'')) =
     Returned \<lparr>all_passed = False,
               results = [\<lparr>name = ''code-simplifier'', passed = True,
                           message = ''--simplified flag provided'', duration_seconds = 0\<rparr>,
                          \<lparr>name = ''lint'', passed = False,
                           message = ''failed (exit 1): E501 line too long'', duration_seconds = 12\<rparr>],
               summary_text = ''code-simplifier: pass, lint: FAIL''\<rparr>"
  by code_simp



section \<open>A worktree with no configured checks\<close>

lemma capital_env_summary:
  "fst (run_validations capital_env False (world_at ''implementing'')) =
     Returned \<lparr>all_passed = False,
               results = [\<lparr>name = ''code-simplifier'', passed = False,
                           message = ''--simplified flag required (run code-simplifier first)'',
                           duration_seconds = 0\<rparr>],
               summary_text = ''code-simplifier: FAIL''\<rparr>"
  by code_simp

lemma capital_env_settings:
  "validation_config capital_env ''require_simplified'' = Some ''True''"
  "validation_config capital_env ''typecheck_command'' = None"
  "validation_config capital_env ''lint_command'' = None"
  "validation_config capital_env ''test_command'' = None"
  by (simp_all add: capital_env_def quiet_env_def)

lemma quiet_env_timeout: "py_int (timeout_setting quiet_env) = Some 300"
  by code_simp

text \<open>
  C10, as amended. If none of \<open>typecheck_command\<close>, \<open>lint_command\<close> and \<open>test_command\<close> is
  configured, the value of \<open>require_simplified\<close> put in lower case is not \<open>true\<close>, and the
  timeout setting is an integer, then \<open>run_validations\<close> runs nothing and returns the
  summary with no results, \<open>all_passed = True\<close> and the empty text. The comparison is made
  after \<open>lower()\<close>: a setting written \<open>True\<close> or \<open>TRUE\<close> is not the string \<open>true\<close>, yet it
  turns the simplification check on, as the counterexample after the theorem shows.
\<close>

theorem vacuous_pass_when_nothing_configured:
  assumes "py_int (timeout_setting e) = Some tmo"
    and "dict_get (validation_config e) ''typecheck_command'' [] = []"
    and "dict_get (validation_config e) ''lint_command'' [] = []"
    and "dict_get (validation_config e) ''test_command'' [] = []"
    and "str_lower (dict_get (validation_config e) ''require_simplified'' ''false'') \<noteq> ''true''"
  shows "run_validations e simplified w =
           (Returned \<lparr>all_passed = True, results = [], summary_text = []\<rparr>, w)"
  using assms
  by (simp add: run_validations_def validation_commands_def simplifier_check_def require_simplified_def)

theorem vacuous_pass_when_nothing_configured_witness:
  "py_int (timeout_setting quiet_env) = Some 300 \<and>
   dict_get (validation_config quiet_env) ''typecheck_command'' [] = [] \<and>
   dict_get (validation_config quiet_env) ''lint_command'' [] = [] \<and>
   dict_get (validation_config quiet_env) ''test_command'' [] = [] \<and>
   str_lower (dict_get (validation_config quiet_env) ''require_simplified'' ''false'') \<noteq> ''true'' \<and>
   run_validations quiet_env False (world_at ''implementing'') =
     (Returned \<lparr>all_passed = True, results = [], summary_text = []\<rparr>, world_at ''implementing'')"
proof -
  have a: "dict_get (validation_config quiet_env) ''typecheck_command'' [] = []"
    and b: "dict_get (validation_config quiet_env) ''lint_command'' [] = []"
    and c: "dict_get (validation_config quiet_env) ''test_command'' [] = []"
    by (simp_all add: quiet_env_def dict_get_def)
  have d: "str_lower (dict_get (validation_config quiet_env) ''require_simplified'' ''false'') \<noteq> ''true''"
    by code_simp
  show ?thesis
    using quiet_env_timeout a b c d
      vacuous_pass_when_nothing_configured [OF quiet_env_timeout a b c d, of False "world_at ''implementing''"]
    by simp
qed

theorem vacuous_pass_counterexample:
  "validation_config capital_env ''typecheck_command'' = None \<and>
   validation_config capital_env ''lint_command'' = None \<and>
   validation_config capital_env ''test_command'' = None \<and>
   validation_config capital_env ''require_simplified'' = Some ''True'' \<and>
   ''True'' \<noteq> ''true'' \<and>
   fst (run_validations capital_env False (world_at ''implementing'')) =
     Returned \<lparr>all_passed = False,
               results = [\<lparr>name = ''code-simplifier'', passed = False,
                           message = ''--simplified flag required (run code-simplifier first)'',
                           duration_seconds = 0\<rparr>],
               summary_text = ''code-simplifier: FAIL''\<rparr>"
  using capital_env_summary capital_env_settings by simp

section \<open>Facts about the state machine\<close>






lemma get_current_phase_calls [simp]:
  "get_current_phase (w\<lparr>calls := cs\<rparr>) = get_current_phase w"
  by (simp add: get_current_phase_def)

lemma finish_transition_rejects:
  assumes "to_phase \<in> PHASES_REQUIRING_APPROVAL"
    and "\<not> fst (validate_approval approval commit_message to_phase)"
  shows "finish_transition e to_phase approval commit_message simplified linted tested w =
           (Returned (False, snd (validate_approval approval commit_message to_phase)), w)"
proof -
  from assms(2) obtain m where "validate_approval approval commit_message to_phase = (False, m)"
    by (cases "validate_approval approval commit_message to_phase") auto
  with assms(1) show ?thesis by (simp add: finish_transition_def)
qed



lemma can_transition_review:
  "fst (can_transition current ''human-manual-review'') = (current = Some ''implementing'')"
proof (cases current)
  case None
  then show ?thesis by (simp add: can_transition_def PHASES_def VALID_TRANSITIONS_def Let_def)
next
  case (Some p)
  then show ?thesis by (simp add: can_transition_def PHASES_def VALID_TRANSITIONS_def Let_def)
qed

lemma do_transition_rejected:
  assumes "\<not> fst (can_transition (get_current_phase w) to_phase)"
  shows "do_transition e to_phase approval commit_message simplified linted tested False w =
           (Returned (False, snd (can_transition (get_current_phase w) to_phase)), w)"
proof -
  from assms have "can_transition (get_current_phase w) to_phase =
                     (False, snd (can_transition (get_current_phase w) to_phase))"
    by (simp add: prod_eq_iff)
  then obtain m where m: "can_transition (get_current_phase w) to_phase = (False, m)" ..
  then show ?thesis by (simp add: do_transition_def)
qed

lemma do_transition_allowed:
  assumes "fst (can_transition (get_current_phase w) to_phase)"
  shows "do_transition e to_phase approval commit_message simplified linted tested False w =
     (if to_phase = ''human-manual-review'' then
        (case run_validations e simplified w of
           (Returned summary, w1) \<Rightarrow>
             if \<not> all_passed summary then
               (Returned (False, ''Pre-review validation failed: '' @ summary_text summary @ nl @
                                 ''Fix the issues and try again.''), w1)
             else finish_transition e to_phase approval commit_message simplified linted tested
                    (update_validation_status e summary w1)
         | (Raised ex, w1) \<Rightarrow> (Raised ex, w1)
         | (Blocked, w1) \<Rightarrow> (Blocked, w1))
      else finish_transition e to_phase approval commit_message simplified linted tested w)"
proof -
  from assms have "can_transition (get_current_phase w) to_phase =
                     (True, snd (can_transition (get_current_phase w) to_phase))"
    by (simp add: prod_eq_iff)
  then obtain m where m: "can_transition (get_current_phase w) to_phase = (True, m)" ..
  then show ?thesis by (simp add: do_transition_def)
qed

lemma run_validations_raises:
  assumes "py_int (timeout_setting e) = None"
  shows "run_validations e simplified w =
           (Raised (ValueError (''invalid literal for int() with base 10: '' @ sq @ timeout_setting e @ sq)), w)"
  using assms by (simp add: run_validations_def)

lemma run_validations_failing:
  assumes "py_int (timeout_setting e) = Some tmo"
    and "(nm, command) \<in> set (validation_commands e)" and "command \<noteq> []"
    and "\<forall>h. \<exists>d rc out err. process e h (Shell command) = Exits d rc out err \<and> rc \<noteq> 0"
  shows "\<exists>sm w'. run_validations e simplified w = (Returned sm, w') \<and> \<not> all_passed sm \<and>
           status_file w' = status_file w"
proof -
  from run_validations_returns [OF assms(1), of simplified w]
  obtain rs w' where r:
    "run_validations e simplified w =
       (Returned \<lparr>all_passed = list_all passed (simplifier_check e simplified @ rs),
                  results = simplifier_check e simplified @ rs,
                  summary_text = str_join '', '' (map summary_part (simplifier_check e simplified @ rs))\<rparr>, w')"
    "status_file w' = status_file w"
    by blast
  from r(1) assms(1) have
    "run_commands e tmo (validation_commands e) (simplifier_check e simplified) w =
       (Returned (simplifier_check e simplified @ rs), w')"
    by (auto simp add: run_validations_def split: prod.splits result.splits)
  from run_commands_failing [OF assms(2,3,4) this]
  have "\<not> list_all passed (simplifier_check e simplified @ rs)" .
  with r show ?thesis by simp
qed

section \<open>The validation gate\<close>

text \<open>
  C4. Let a configured validation command (typecheck, lint or test, with a non-empty
  command line) exit non-zero whenever it is run, the timeout setting being an integer.
  Then a call of \<open>do_transition\<close> into \<open>human-manual-review\<close> returns failure and leaves the
  status file, hence \<open>current_phase\<close>, as it was, whatever approval, commit message and
  flags are supplied. When the current phase is \<open>implementing\<close>, so that the pipeline is
  run, the summary has \<open>all_passed\<close> false and the failure message carries its text.
\<close>

theorem validation_gate_blocks_review:
  assumes "py_int (timeout_setting e) = Some tmo"
    and "(nm, command) \<in> set (validation_commands e)" and "command \<noteq> []"
    and "\<forall>h. \<exists>d rc out err. process e h (Shell command) = Exits d rc out err \<and> rc \<noteq> 0"
  shows "(\<exists>msg. fst (do_transition e ''human-manual-review'' approval commit_message
                      simplified linted tested False w) = Returned (False, msg)) \<and>
         status_file (snd (do_transition e ''human-manual-review'' approval commit_message
                      simplified linted tested False w)) = status_file w \<and>
         (get_current_phase w = Some ''implementing'' \<longrightarrow>
            (\<exists>sm w'. run_validations e simplified w = (Returned sm, w') \<and> \<not> all_passed sm \<and>
               do_transition e ''human-manual-review'' approval commit_message
                 simplified linted tested False w =
               (Returned (False, ''Pre-review validation failed: '' @ summary_text sm @ nl @
                                 ''Fix the issues and try again.''), w')))"
proof (cases "get_current_phase w = Some ''implementing''")
  case False
  then have "\<not> fst (can_transition (get_current_phase w) ''human-manual-review'')"
    by (simp add: can_transition_review)
  from do_transition_rejected [OF this] False show ?thesis by simp
next
  case True
  then have ok: "fst (can_transition (get_current_phase w) ''human-manual-review'')"
    by (simp add: can_transition_review)
  from run_validations_failing [OF assms, of simplified w]
  obtain sm w' where v: "run_validations e simplified w = (Returned sm, w')" "\<not> all_passed sm"
    "status_file w' = status_file w"
    by blast
  have "do_transition e ''human-manual-review'' approval commit_message simplified linted tested False w =
          (Returned (False, ''Pre-review validation failed: '' @ summary_text sm @ nl @
                            ''Fix the issues and try again.''), w')"
    using v(1,2) by (simp add: do_transition_allowed [OF ok])
  with v show ?thesis by simp
qed


lemma world_at_implementing: "get_current_phase (world_at ''implementing'') = Some ''implementing''"
  by code_simp

theorem validation_gate_blocks_review_witness:
  "py_int (timeout_setting strict_env) = Some 300 \<and>
   (''lint'', ''ruff check'') \<in> set (validation_commands strict_env) \<and> ''ruff check'' \<noteq> [] \<and>
   (\<forall>h. \<exists>d rc out err. process strict_env h (Shell ''ruff check'') = Exits d rc out err \<and> rc \<noteq> 0) \<and>
   get_current_phase (world_at ''implementing'') = Some ''implementing'' \<and>
   fst (do_transition strict_env ''human-manual-review'' (Some ''Yes, go ahead'')
          (Some ''feat: add review gate'') True False False False (world_at ''implementing''))
     = Returned (False, ''Pre-review validation failed: code-simplifier: pass, lint: FAIL'' @ nl @
                        ''Fix the issues and try again.'') \<and>
   status_file (snd (do_transition strict_env ''human-manual-review'' (Some ''Yes, go ahead'')
          (Some ''feat: add review gate'') True False False False (world_at ''implementing'')))
     = status_file (world_at ''implementing'')"
proof -
  have a: "(''lint'', ''ruff check'') \<in> set (validation_commands strict_env)"
    by (simp add: validation_commands_def strict_env_def dict_get_def)
  have b: "''ruff check'' \<noteq> []" by simp
  have c: "\<forall>h. \<exists>d rc out err. process strict_env h (Shell ''ruff check'') = Exits d rc out err \<and> rc \<noteq> 0"
    by (simp add: strict_env_def)
  from validation_gate_blocks_review [OF strict_env_timeout a b c,
      of "Some ''Yes, go ahead''" "Some ''feat: add review gate''" True False False "world_at ''implementing''"]
    world_at_implementing
  obtain sm w' where r:
    "run_validations strict_env True (world_at ''implementing'') = (Returned sm, w')"
    "do_transition strict_env ''human-manual-review'' (Some ''Yes, go ahead'')
       (Some ''feat: add review gate'') True False False False (world_at ''implementing'') =
     (Returned (False, ''Pre-review validation failed: '' @ summary_text sm @ nl @
                       ''Fix the issues and try again.''), w')"
    "status_file (snd (do_transition strict_env ''human-manual-review'' (Some ''Yes, go ahead'')
          (Some ''feat: add review gate'') True False False False (world_at ''implementing'')))
     = status_file (world_at ''implementing'')"
    by blast
  from r(1) strict_env_summary have "summary_text sm = ''code-simplifier: pass, lint: FAIL''"
    by simp
  with r strict_env_timeout a b c world_at_implementing show ?thesis by simp
qed

section \<open>Validation-only mode\<close>



section \<open>The approval gate and the record of the validation run\<close>

lemma show_bool_lower_True: "show_bool_lower True = ''true''"
  by code_simp

lemma update_validation_status_written:
  assumes "status_file w = Some content" and "all_passed sm"
  shows "update_validation_status e sm w =
           w\<lparr>status_file := Some (content(''validation_passed'' \<mapsto> ''true'',
                                            ''validation_summary'' \<mapsto> quoted (summary_text sm),
                                            ''last_validation_at'' \<mapsto> quoted (validation_clock e)))\<rparr>"
  using assms
  by (simp add: update_validation_status_def update_toml_fields_def show_bool_lower_True)

lemma update_validation_status_frame:
  assumes "k \<notin> validation_keys"
  shows "status_lookup (update_validation_status e sm w) k = status_lookup w k"
  using assms
  by (cases "status_file w")
     (auto simp add: update_validation_status_def update_toml_fields_def status_lookup_def
        validation_keys_def map_add_def)

lemma status_lookup_cong:
  "status_file w' = status_file w \<Longrightarrow> status_lookup w' k = status_lookup w k"
  by (simp add: status_lookup_def)

lemma get_current_phase_lookup:
  "get_current_phase w = map_option unquote (status_lookup w ''current_phase'')"
  by (cases "status_file w") (simp_all add: get_current_phase_def status_lookup_def parse_toml_value_def)

lemma validate_approval_missing:
  assumes "falsy approval"
  shows "validate_approval approval commit_message phase =
     (False,
      ''Phase '' @ sq @ phase @ sq @ '' requires explicit user approval.'' @ nl @
      ''Use: transition '' @ phase @ '' --approval '' @ dq @ ''<user'' @ sq @ ''s approval response>'' @ dq @
      '' --commit-message '' @ dq @ ''<message>'' @ dq @ nl @
      ''The approval must contain the user'' @ sq @ ''s actual response granting permission.'')"
  using assms by (simp add: validate_approval_def)

text \<open>
  C1, as amended. For a worktree in phase \<open>implementing\<close> whose validation pipeline passes,
  a call of \<open>do_transition\<close> to \<open>human-manual-review\<close> without an approval returns failure
  with the message that the phase requires explicit user approval. The call does not
  leave the status file untouched: before the approval check it has stored the validation
  result, so the file afterwards is the old one with exactly the three keys
  \<open>validation_passed\<close>, \<open>validation_summary\<close> and \<open>last_validation_at\<close> written; every other
  key, \<open>current_phase\<close> among them, is as before.
\<close>

theorem missing_approval_after_passing_validation:
  assumes "get_current_phase w = Some ''implementing''"
    and "run_validations e simplified w = (Returned sm, w1)" and "all_passed sm"
    and "falsy approval"
  shows "\<exists>content.
     status_file w = Some content \<and>
     do_transition e ''human-manual-review'' approval commit_message simplified linted tested False w =
       (Returned (False,
          ''Phase '' @ sq @ ''human-manual-review'' @ sq @ '' requires explicit user approval.'' @ nl @
          ''Use: transition human-manual-review --approval '' @ dq @ ''<user'' @ sq @
          ''s approval response>'' @ dq @ '' --commit-message '' @ dq @ ''<message>'' @ dq @ nl @
          ''The approval must contain the user'' @ sq @ ''s actual response granting permission.''),
        w1\<lparr>status_file := Some (content(''validation_passed'' \<mapsto> ''true'',
                                         ''validation_summary'' \<mapsto> quoted (summary_text sm),
                                         ''last_validation_at'' \<mapsto> quoted (validation_clock e)))\<rparr>)"
proof -
  from assms(1) obtain content where content: "status_file w = Some content"
    by (cases "status_file w") (simp_all add: get_current_phase_def)
  from assms(2) run_validations_status [of e simplified w] have "status_file w1 = status_file w"
    by simp
  with content have c1: "status_file w1 = Some content" by simp
  have ok: "fst (can_transition (get_current_phase w) ''human-manual-review'')"
    using assms(1) by (simp add: can_transition_review)
  have rej: "\<not> fst (validate_approval approval commit_message ''human-manual-review'')"
    using assms(4) by (simp add: validate_approval_missing)
  have "do_transition e ''human-manual-review'' approval commit_message simplified linted tested False w =
          finish_transition e ''human-manual-review'' approval commit_message simplified linted tested
            (update_validation_status e sm w1)"
    using assms(2,3) by (simp add: do_transition_allowed [OF ok])
  also have "\<dots> = (Returned (False, snd (validate_approval approval commit_message ''human-manual-review'')),
                    update_validation_status e sm w1)"
    by (rule finish_transition_rejects [OF _ rej]) (simp add: PHASES_REQUIRING_APPROVAL_def)
  finally show ?thesis
    using content update_validation_status_written [OF c1 assms(3), of e]
      validate_approval_missing [OF assms(4), of commit_message "''human-manual-review''"]
    by simp
qed

lemma passing_env_summary:
  "fst (run_validations passing_env False (world_at ''implementing'')) =
     Returned \<lparr>all_passed = True,
               results = [\<lparr>name = ''typecheck'', passed = True, message = ''passed in 0.5s'',
                           duration_seconds = 5\<rparr>,
                          \<lparr>name = ''lint'', passed = True, message = ''passed in 0.5s'',
                           duration_seconds = 5\<rparr>,
                          \<lparr>name = ''test'', passed = True, message = ''passed in 0.5s'',
                           duration_seconds = 5\<rparr>],
               summary_text = ''typecheck: pass, lint: pass, test: pass''\<rparr>"
  by code_simp

lemma passing_env_commands:
  "validation_commands passing_env = [(''typecheck'', ''mypy .''), (''lint'', ''ruff check''), (''test'', ''pytest'')]"
  by (simp add: validation_commands_def passing_env_def quiet_env_def dict_get_def)

theorem missing_approval_counterexample:
  "get_current_phase (world_at ''implementing'') = Some ''implementing'' \<and>
   validation_commands passing_env =
     [(''typecheck'', ''mypy .''), (''lint'', ''ruff check''), (''test'', ''pytest'')] \<and>
   fst (run_validations passing_env False (world_at ''implementing'')) =
     Returned \<lparr>all_passed = True,
               results = [\<lparr>name = ''typecheck'', passed = True, message = ''passed in 0.5s'',
                           duration_seconds = 5\<rparr>,
                          \<lparr>name = ''lint'', passed = True, message = ''passed in 0.5s'',
                           duration_seconds = 5\<rparr>,
                          \<lparr>name = ''test'', passed = True, message = ''passed in 0.5s'',
                           duration_seconds = 5\<rparr>],
               summary_text = ''typecheck: pass, lint: pass, test: pass''\<rparr> \<and>
   fst (do_transition passing_env ''human-manual-review'' None None False False False False
          (world_at ''implementing''))
     = Returned (False, snd (validate_approval None None ''human-manual-review'')) \<and>
   status_lookup (world_at ''implementing'') ''validation_passed'' = None \<and>
   status_lookup (snd (do_transition passing_env ''human-manual-review'' None None False False False False
          (world_at ''implementing''))) ''validation_passed'' = Some ''true'' \<and>
   status_file (snd (do_transition passing_env ''human-manual-review'' None None False False False False
          (world_at ''implementing''))) \<noteq> status_file (world_at ''implementing'')"
proof -
  have a: "fst (do_transition passing_env ''human-manual-review'' None None False False False False
          (world_at ''implementing''))
     = Returned (False, snd (validate_approval None None ''human-manual-review''))"
    by code_simp
  have b: "status_lookup (world_at ''implementing'') ''validation_passed'' = None"
    by code_simp
  have c: "status_lookup (snd (do_transition passing_env ''human-manual-review'' None None False False False False
          (world_at ''implementing''))) ''validation_passed'' = Some ''true''"
    by code_simp
  from b c have "status_file (snd (do_transition passing_env ''human-manual-review'' None None False False
          False False (world_at ''implementing''))) \<noteq> status_file (world_at ''implementing'')"
    by (auto simp add: status_lookup_def)
  with a b c world_at_implementing passing_env_summary passing_env_commands show ?thesis by simp
qed


theorem missing_approval_after_passing_validation_witness:
  "get_current_phase (world_at ''implementing'') = Some ''implementing'' \<and>
   falsy None \<and>
   (\<exists>sm w1. run_validations passing_env False (world_at ''implementing'') = (Returned sm, w1) \<and>
      all_passed sm \<and>
      (\<exists>content.
         status_file (world_at ''implementing'') = Some content \<and>
         do_transition passing_env ''human-manual-review'' None None False False False False
             (world_at ''implementing'') =
           (Returned (False,
              ''Phase '' @ sq @ ''human-manual-review'' @ sq @ '' requires explicit user approval.'' @ nl @
              ''Use: transition human-manual-review --approval '' @ dq @ ''<user'' @ sq @
              ''s approval response>'' @ dq @ '' --commit-message '' @ dq @ ''<message>'' @ dq @ nl @
              ''The approval must contain the user'' @ sq @ ''s actual response granting permission.''),
            w1\<lparr>status_file := Some (content(''validation_passed'' \<mapsto> ''true'',
                      ''validation_summary'' \<mapsto> quoted (summary_text sm),
                      ''last_validation_at'' \<mapsto> quoted (validation_clock passing_env)))\<rparr>)))"
proof -
  obtain sm w1 where v: "run_validations passing_env False (world_at ''implementing'') = (Returned sm, w1)"
    "all_passed sm"
    using passing_env_summary
    by (cases "run_validations passing_env False (world_at ''implementing'')") auto
  have f: "falsy None" by (simp add: falsy_def)
  from missing_approval_after_passing_validation [OF world_at_implementing v f, of None False False]
  show ?thesis using world_at_implementing f v by blast
qed

lemma validate_approval_too_short:
  assumes "(case approval of None \<Rightarrow> True | Some a \<Rightarrow> length a < 10) \<or>
           (case commit_message of None \<Rightarrow> True | Some c \<Rightarrow> length c < 10)"
  shows "\<not> fst (validate_approval approval commit_message phase)"
  using assms
  by (auto simp add: validate_approval_def falsy_def MIN_APPROVAL_LENGTH_def MIN_COMMIT_MESSAGE_LENGTH_def
      split: option.splits)

text \<open>
  C6, as amended. For a transition into a phase that requires approval, an approval that
  is missing or shorter than 10 characters is rejected whatever the commit message, and a
  commit message that is missing or shorter than 10 characters is rejected whatever the
  approval. The call then never succeeds and the new phase is not committed:
  \<open>current_phase\<close> and every key other than the three validation keys are as before. The
  three validation keys may have been written, because the result of a passing validation
  run is stored before the approval check.
\<close>

theorem approval_gate_rejects:
  assumes "to_phase \<in> PHASES_REQUIRING_APPROVAL"
    and "(case approval of None \<Rightarrow> True | Some a \<Rightarrow> length a < 10) \<or>
         (case commit_message of None \<Rightarrow> True | Some c \<Rightarrow> length c < 10)"
  shows "\<not> fst (validate_approval approval commit_message to_phase) \<and>
     (\<forall>m. fst (do_transition e to_phase approval commit_message simplified linted tested False w)
            \<noteq> Returned (True, m)) \<and>
     get_current_phase (snd (do_transition e to_phase approval commit_message simplified linted tested
                               False w)) = get_current_phase w \<and>
     (\<forall>k. k \<notin> validation_keys \<longrightarrow>
        status_lookup (snd (do_transition e to_phase approval commit_message simplified linted tested
                              False w)) k = status_lookup w k)"
proof -
  let ?d = "do_transition e to_phase approval commit_message simplified linted tested False w"
  have rej: "\<not> fst (validate_approval approval commit_message to_phase)"
    using assms(2) by (rule validate_approval_too_short)
  from assms(1) have to: "to_phase = ''human-manual-review''"
    by (simp add: PHASES_REQUIRING_APPROVAL_def)
  have main: "(\<forall>m. fst ?d \<noteq> Returned (True, m)) \<and>
              (\<forall>k. k \<notin> validation_keys \<longrightarrow> status_lookup (snd ?d) k = status_lookup w k)"
  proof (cases "fst (can_transition (get_current_phase w) to_phase)")
    case False
    from do_transition_rejected [OF False, of e approval commit_message simplified linted tested]
    show ?thesis by simp
  next
    case True
    note d = do_transition_allowed [OF True, of e approval commit_message simplified linted tested]
    show ?thesis
    proof (cases "py_int (timeout_setting e)")
      case None
      from run_validations_raises [OF None, of simplified w] d to show ?thesis by simp
    next
      case (Some tmo)
      from run_validations_returns [OF Some, of simplified w]
      obtain sm w1 where v: "run_validations e simplified w = (Returned sm, w1)"
        "status_file w1 = status_file w"
        by blast
      show ?thesis
      proof (cases "all_passed sm")
        case False
        with d to v show ?thesis by (simp add: status_lookup_def)
      next
        case True
        with d to v have "?d = finish_transition e to_phase approval commit_message simplified linted tested
                                 (update_validation_status e sm w1)"
          by simp
        also have "\<dots> = (Returned (False, snd (validate_approval approval commit_message to_phase)),
                          update_validation_status e sm w1)"
          by (rule finish_transition_rejects [OF assms(1) rej])
        finally have "?d = (Returned (False, snd (validate_approval approval commit_message to_phase)),
                            update_validation_status e sm w1)" .
        moreover have "\<forall>k. k \<notin> validation_keys \<longrightarrow>
                          status_lookup (update_validation_status e sm w1) k = status_lookup w k"
          using update_validation_status_frame [of _ e sm w1] status_lookup_cong [OF v(2)] by simp
        ultimately show ?thesis by simp
      qed
    qed
  qed
  have "''current_phase'' \<notin> validation_keys" by (simp add: validation_keys_def)
  with main have "status_lookup (snd ?d) ''current_phase'' = status_lookup w ''current_phase''"
    by blast
  then have "get_current_phase (snd ?d) = get_current_phase w"
    by (simp add: get_current_phase_lookup)
  with rej main show ?thesis by blast
qed


theorem approval_gate_rejects_witness:
  "''human-manual-review'' \<in> PHASES_REQUIRING_APPROVAL \<and>
   length ''ok'' < 10 \<and> \<not> length ''feat: add review gate'' < 10 \<and>
   \<not> fst (validate_approval (Some ''ok'') (Some ''feat: add review gate'') ''human-manual-review'') \<and>
   \<not> fst (validate_approval (Some ''feat: add review gate'') (Some ''ok'') ''human-manual-review'') \<and>
   (\<forall>m. fst (do_transition passing_env ''human-manual-review'' (Some ''ok'')
               (Some ''feat: add review gate'') False False False False (world_at ''implementing''))
          \<noteq> Returned (True, m)) \<and>
   get_current_phase (snd (do_transition passing_env ''human-manual-review'' (Some ''ok'')
               (Some ''feat: add review gate'') False False False False (world_at ''implementing'')))
     = Some ''implementing''"
proof -
  have p: "''human-manual-review'' \<in> PHASES_REQUIRING_APPROVAL"
    by (simp add: PHASES_REQUIRING_APPROVAL_def)
  have a: "(case Some ''ok'' of None \<Rightarrow> True | Some a \<Rightarrow> length a < 10) \<or>
           (case Some ''feat: add review gate'' of None \<Rightarrow> True | Some c \<Rightarrow> length c < 10)"
    by simp
  have b: "(case Some ''feat: add review gate'' of None \<Rightarrow> True | Some a \<Rightarrow> length a < 10) \<or>
           (case Some ''ok'' of None \<Rightarrow> True | Some c \<Rightarrow> length c < 10)"
    by simp
  show ?thesis
    using p world_at_implementing
      approval_gate_rejects [OF p a, of passing_env False False False "world_at ''implementing''"]
      approval_gate_rejects [OF p b, of passing_env False False False "world_at ''implementing''"]
    by simp
qed

theorem approval_gate_counterexample:
  "length ''ok'' < 10 \<and>
   fst (do_transition passing_env ''human-manual-review'' (Some ''ok'') (Some ''feat: add review gate'')
          False False False False (world_at ''implementing''))
     = Returned (False, snd (validate_approval (Some ''ok'') (Some ''feat: add review gate'')
                               ''human-manual-review'')) \<and>
   status_lookup (world_at ''implementing'') ''validation_summary'' = None \<and>
   status_lookup (snd (do_transition passing_env ''human-manual-review'' (Some ''ok'')
          (Some ''feat: add review gate'') False False False False (world_at ''implementing'')))
     ''validation_summary'' = Some (quoted ''typecheck: pass, lint: pass, test: pass'')"
proof -
  have a: "fst (do_transition passing_env ''human-manual-review'' (Some ''ok'') (Some ''feat: add review gate'')
          False False False False (world_at ''implementing''))
     = Returned (False, snd (validate_approval (Some ''ok'') (Some ''feat: add review gate'')
                               ''human-manual-review''))"
    by code_simp
  have b: "status_lookup (world_at ''implementing'') ''validation_summary'' = None"
    by code_simp
  have c: "status_lookup (snd (do_transition passing_env ''human-manual-review'' (Some ''ok'')
          (Some ''feat: add review gate'') False False False False (world_at ''implementing'')))
     ''validation_summary'' = Some (quoted ''typecheck: pass, lint: pass, test: pass'')"
    by code_simp
  from a b c show ?thesis by simp
qed

section \<open>What reaches the caller of do_transition\<close>









section \<open>Hooks are advisory\<close>















section \<open>Timeouts of the external commands\<close>



lemma timeout_invoked [simp]: "timeout (invoked tmo p) = Some tmo"
  by (cases p) (simp add: invoked_def)





end
